theory Spec2Isabelle
  imports Main
begin

section \<open>The SDK manager of xds-server (lib/xdsserver/sdk.go)\<close>

text \<open>
  The managed SDK record, its job handle and the operations \<open>NewCrossSDK\<close>,
  \<open>Install\<close> (with its two callbacks), \<open>AbortInstallRemove\<close> and \<open>Remove\<close> are
  embedded as pure functions over explicit state. Everything the Go code obtains from
  outside (the file system, child processes, the session registry, the environment,
  library functions of other packages) is a parameter of the function that uses it.
  Go strings are byte strings and are modelled as \<open>string\<close>; Go's \<open>int\<close> is modelled as
  \<open>int\<close> (no claim depends on its width).
\<close>

subsection \<open>Outcomes\<close>

text \<open>A Go call either returns or panics (a failed type assertion, a slice out of range).\<close>

datatype 'a go = Panic | Ret 'a

text \<open>
  Go errors. The first four are the messages built by \<open>fmt.Errorf\<close> in \<open>Install\<close>,
  \<open>AbortInstallRemove\<close> and \<open>Remove\<close>; \<open>ProcessError\<close> is an error handed back by the
  process layer (\<open>eows\<close>, \<open>os/exec\<close>, \<open>encoding/json\<close>) with its message; the others wrap
  a message or another error as the source's format strings do.
\<close>

datatype error =
    AlreadyInstalled
  | InstallInProgress
  | NoOperationInProgress
  | NotInstalled
  | ProcessError string
  | UninstallFailed error
  | ScriptNotFound string string
  | CannotGetConfig string error
  | CannotDecodeConfig error
  | ConfigNotValid string
  | ScriptMissing string string
  | InvalidDefinition string

fun Error :: "error \<Rightarrow> string" where
  "Error AlreadyInstalled = ''already installed''"
| "Error InstallInProgress = ''installation in progress''"
| "Error NoOperationInProgress = ''no installation in progress for this sdk''"
| "Error NotInstalled = ''this sdk is not installed''"
| "Error (ProcessError m) = m"
| "Error (UninstallFailed e) = ''Error while uninstalling sdk: '' @ Error e"
| "Error (ScriptNotFound scr dir) = [CHR 0x27] @ scr @ [CHR 0x27] @ '' script file not found in '' @ dir"
| "Error (CannotGetConfig f e) = ''Cannot get sdk config using '' @ f @ '': '' @ Error e"
| "Error (CannotDecodeConfig e) = ''Cannot decode sdk config '' @ Error e"
| "Error (ConfigNotValid what) = ''SDK config not valid ('' @ what @ '')''"
| "Error (ScriptMissing scr fam) =
     ''Script named '' @ [CHR 0x27] @ scr @ [CHR 0x27] @ '' missing in SDK family '' @ [CHR 0x27] @ fam @ [CHR 0x27]"
| "Error (InvalidDefinition what) = ''Invalid SDK definition ('' @ what @ '')''"

subsection \<open>Records\<close>

text \<open>
  Modelled from the spec: the types \<open>SDKFamilyConfig\<close> and \<open>SDK\<close> of package \<open>xsapiv1\<close>,
  which is not among the sources: the fields of the data model, under the names
  \<open>sdk.go\<close> uses for them. All are strings.
\<close>

record SDKFamilyConfig =
  FamilyName :: string
  RootDir :: string
  EnvSetupFile :: string

record SDK =
  ID :: string
  Name :: string
  Description :: string
  Profile :: string
  Version :: string
  Arch :: string
  Path :: string
  URL :: string
  Status :: string
  Date :: string
  Size :: string
  Md5sum :: string
  SetupFile :: string
  LastError :: string
  FamilyConf :: SDKFamilyConfig

text \<open>
  Modelled from the spec: the status constants of package \<open>xsapiv1\<close>, which is not among
  the sources. The strings for "not installed" and "installed" are the ones the
  \<open>db-dump\<close> script writes; the two transitional states are named after the spec's states.
\<close>

definition SdkStatusNotInstalled :: string where "SdkStatusNotInstalled = ''Not Installed''"
definition SdkStatusInstalling :: string where "SdkStatusInstalling = ''Installing''"
definition SdkStatusUninstalling :: string where "SdkStatusUninstalling = ''Uninstalling''"
definition SdkStatusInstalled :: string where "SdkStatusInstalled = ''Installed''"

definition scriptAdd :: string where "scriptAdd = ''add''"
definition scriptGetConfig :: string where "scriptGetConfig = ''get-config''"
definition scriptList :: string where "scriptList = ''list''"
definition scriptRemove :: string where "scriptRemove = ''remove''"
definition scriptUpdate :: string where "scriptUpdate = ''update''"

definition scriptsAll :: "string list" where
  "scriptsAll = [scriptAdd, scriptGetConfig, scriptList, scriptRemove, scriptUpdate]"

text \<open>
  The job handle \<open>eows.ExecOverWS\<close>, with the fields \<open>Install\<close> sets. The two callbacks
  are closures over the SDK instance and over the local variables \<open>SizeBufStdout\<close> and
  \<open>SizeBufStderr\<close>; the handle carries these two captured values, and the callbacks are
  the functions \<open>OutputCB\<close> and \<open>ExitCB\<close> below.
\<close>

record ExecOverWS =
  Cmd :: string
  Args :: "string list"
  Sid :: string
  CmdID :: string
  CmdExecTimeout :: int
  UserData :: "string \<rightharpoonup> string"
  SizeBufStdout :: int
  SizeBufStderr :: int

record CrossSDK =
  sdk :: SDK
  scripts :: "string \<rightharpoonup> string"
  installCmd :: "ExecOverWS option"
  removeCmd :: "ExecOverWS option"
  bufStdout :: string
  bufStderr :: string

text \<open>
  The message of event \<open>EVTSDKInstall\<close> (\<open>xsapiv1.SDKManagementMsg\<close>), with the fields
  the three composite literals of \<open>sdk.go\<close> set; \<open>Error\<close> is called \<open>Err\<close> here.
  \<open>Timestamp\<close> (the wall clock) is left out. Fields a Go composite literal does not
  mention hold the zero value.
\<close>

record SDKManagementMsg =
  MsgCmdID :: string
  Sdk :: SDK
  Progress :: int
  Exited :: bool
  Stdout :: string
  Stderr :: string
  Code :: int
  Err :: string

text \<open>
  The state the SDK manager acts on: one SDK instance, the package-level counter
  \<open>sdkCmdID\<close>, and the messages handed to the socket's \<open>Emit\<close> so far, oldest first.
  An error returned by \<open>Emit\<close> is only logged, so it changes nothing here.
\<close>

record state =
  cross :: CrossSDK
  sdkCmdID :: int
  emitted :: "SDKManagementMsg list"

text \<open>The part of \<open>Context\<close> the callbacks read: the session registry (is there a socket
  for this session id now?) and the log level flag.\<close>

record Context =
  IOSocketGet :: "string \<Rightarrow> bool"
  LogLevelSilly :: bool

subsection \<open>strconv.Itoa\<close>

definition digit_char :: "nat \<Rightarrow> char" where
  "digit_char d = char_of (48 + d)"

function Itoa_nat :: "nat \<Rightarrow> string" where
  "Itoa_nat n = (if n < 10 then [digit_char n] else Itoa_nat (n div 10) @ [digit_char (n mod 10)])"
  by pat_completeness auto
termination
  by (relation "measure id") auto

declare Itoa_nat.simps [simp del]

definition Itoa :: "int \<Rightarrow> string" where
  "Itoa i = (if i < 0 then CHR ''-'' # Itoa_nat (nat (- i)) else Itoa_nat (nat i))"

subsection \<open>NewCrossSDK\<close>

text \<open>
  What \<open>NewCrossSDK\<close> takes from outside: \<open>common.Exists\<close>, \<open>path.Join\<close>, running a
  command with \<open>CombinedOutput\<close>, \<open>json.Unmarshal\<close> into the family configuration (the
  struct it was given, as decoding left it, and the error if any), and
  \<open>uuid.NewV3(uuid.FromStringOrNil("sdks"), nm).String()\<close> as a function of \<open>nm\<close>.
\<close>

record OS =
  Exists :: "string \<Rightarrow> bool"
  Join :: "string \<Rightarrow> string \<Rightarrow> string"
  CombinedOutput :: "string \<Rightarrow> string \<times> error option"
  Unmarshal :: "string \<Rightarrow> SDKFamilyConfig \<Rightarrow> SDKFamilyConfig \<times> error option"
  NewV3 :: "string \<Rightarrow> string"

text \<open>The loop over \<open>scriptsAll\<close>: the scripts map so far, and the first missing script.\<close>

fun check_scripts :: "OS \<Rightarrow> string \<Rightarrow> string list \<Rightarrow> (string \<rightharpoonup> string)
    \<Rightarrow> (string \<rightharpoonup> string) \<times> string option" where
  "check_scripts os scriptDir [] m = (m, None)"
| "check_scripts os scriptDir (scr # rest) m =
     (let m' = m(scr \<mapsto> Join os scriptDir scr)
      in if \<not> Exists os (Join os scriptDir scr) then (m', Some scr)
         else check_scripts os scriptDir rest m')"

text \<open>The sanity checks on the definition; they read the parameter \<open>sdk\<close> (here \<open>k\<close>).\<close>

definition check_definition :: "OS \<Rightarrow> SDK \<Rightarrow> error option" where
  "check_definition os k =
     (if Name k = [] then Some (InvalidDefinition ''name not set'')
      else if Profile k = [] then Some (InvalidDefinition ''profile not set'')
      else if Version k = [] then Some (InvalidDefinition ''version not set'')
      else if Arch k = [] then Some (InvalidDefinition ''arch not set'')
      else if Status k = SdkStatusInstalled then
        (if SetupFile k = [] then Some (InvalidDefinition ''setupFile not set'')
         else if \<not> Exists os (SetupFile k) then Some (InvalidDefinition ''setupFile not accessible'')
         else if Path k = [] then Some (InvalidDefinition ''path not set'')
         else if \<not> Exists os (Path k) then Some (InvalidDefinition ''path not accessible'')
         else None)
      else None)"

text \<open>The name the identifier is derived from, and the identifier.\<close>

definition id_name :: "SDK \<Rightarrow> string" where
  "id_name k = (if Name k = [] then Profile k @ ''_'' @ Arch k @ ''_'' @ Version k else Name k)"

definition derive_id :: "OS \<Rightarrow> SDK \<Rightarrow> string" where
  "derive_id os k = NewV3 os (id_name k)"

text \<open>
  \<open>NewCrossSDK\<close> returns the instance together with the error, on every path. The
  parameter \<open>sdk\<close> is a struct passed by value: \<open>s.sdk\<close> is a copy taken when \<open>s\<close> is
  built, and the two assignments under "Fixed default fields value" write to the
  parameter (\<open>sdk1\<close> below), which only the sanity checks read afterwards. The last log
  call slices \<open>s.sdk.ID[:8]\<close>, which panics on a shorter string.
\<close>

definition NewCrossSDK :: "OS \<Rightarrow> SDK \<Rightarrow> string \<Rightarrow> (CrossSDK \<times> error option) go" where
  "NewCrossSDK os sdk0 scriptDir =
     (let s = \<lparr>sdk = sdk0, scripts = Map.empty, installCmd = None, removeCmd = None,
               bufStdout = [], bufStderr = []\<rparr>;
          getConfFile = Join os scriptDir scriptGetConfig
      in if \<not> Exists os getConfFile then Ret (s, Some (ScriptNotFound scriptGetConfig scriptDir))
         else case CombinedOutput os getConfFile of
           (out, Some e) \<Rightarrow> Ret (s, Some (CannotGetConfig getConfFile e))
         | (out, None) \<Rightarrow>
            (case Unmarshal os out (FamilyConf (sdk s)) of (conf, uerr) \<Rightarrow>
              let s = s\<lparr>sdk := (sdk s)\<lparr>FamilyConf := conf\<rparr>\<rparr> in
              case uerr of
                Some e \<Rightarrow> Ret (s, Some (CannotDecodeConfig e))
              | None \<Rightarrow>
                 let famName = FamilyName (FamilyConf (sdk s)) in
                 if RootDir (FamilyConf (sdk s)) = [] then Ret (s, Some (ConfigNotValid ''rootDir not set''))
                 else if EnvSetupFile (FamilyConf (sdk s)) = []
                   then Ret (s, Some (ConfigNotValid ''envSetupFile not set''))
                 else case check_scripts os scriptDir scriptsAll (scripts s) of (m, missing) \<Rightarrow>
                   let s = s\<lparr>scripts := m\<rparr> in
                   case missing of
                     Some scr \<Rightarrow> Ret (s, Some (ScriptMissing scr famName))
                   | None \<Rightarrow>
                      let sdk1 = sdk0\<lparr>LastError := []\<rparr>;
                          sdk1 = (if Status sdk1 = [] then sdk1\<lparr>Status := SdkStatusNotInstalled\<rparr> else sdk1)
                      in case check_definition os sdk1 of
                           Some e \<Rightarrow> Ret (s, Some e)
                         | None \<Rightarrow>
                            let s = s\<lparr>sdk := (sdk s)\<lparr>ID := derive_id os (sdk s)\<rparr>\<rparr>
                            in if length (ID (sdk s)) < 8 then Panic else Ret (s, None)))"

subsection \<open>Install and its callbacks\<close>

text \<open>A Go map read: the zero value for a missing key.\<close>

definition script :: "CrossSDK \<Rightarrow> string \<Rightarrow> string" where
  "script s k = (case scripts s k of None \<Rightarrow> [] | Some p \<Rightarrow> p)"

text \<open>
  The threshold read at job setup: the default unless the variable is set
  (\<open>os.LookupEnv\<close>) and \<open>strconv.Atoi\<close> accepts its value.
\<close>

definition threshold :: "(string \<rightharpoonup> string) \<Rightarrow> (string \<Rightarrow> int option) \<Rightarrow> string \<Rightarrow> int \<Rightarrow> int" where
  "threshold LookupEnv Atoi var dflt =
     (case LookupEnv var of
        None \<Rightarrow> dflt
      | Some valS \<Rightarrow> (case Atoi valS of None \<Rightarrow> dflt | Some valI \<Rightarrow> valI))"

text \<open>
  \<open>Install\<close>. \<open>LookupEnv\<close> and \<open>Atoi\<close> are the two library functions, \<open>sessID\<close> is
  \<open>sess.ID\<close> (of a session that is not nil), and \<open>startErr\<close> is what
  \<open>s.installCmd.Start()\<close> returns. \<open>eows.New\<close> builds the handle from its arguments. The
  result is the returned error and the state after the call.
\<close>

definition Install :: "(string \<rightharpoonup> string) \<Rightarrow> (string \<Rightarrow> int option) \<Rightarrow> error option
    \<Rightarrow> string \<Rightarrow> bool \<Rightarrow> int \<Rightarrow> string \<Rightarrow> state \<Rightarrow> error option \<times> state" where
  "Install LookupEnv Atoi startErr file force timeout sessID st =
     (let s = cross st in
      if Status (sdk s) = SdkStatusInstalled then (Some AlreadyInstalled, st)
      else if Status (sdk s) = SdkStatusInstalling then (Some InstallInProgress, st)
      else
        let cmdArgs = (if file \<noteq> [] then [''--file'', file] else [''--url'', URL (sdk s)]);
            cmdArgs = (if force then cmdArgs @ [''--force''] else cmdArgs);
            n = sdkCmdID st + 1;
            cmdID = ''sdk-install-'' @ Itoa n;
            cmd = \<lparr>Cmd = script s scriptAdd, Args = cmdArgs, Sid = sessID, CmdID = cmdID,
                   CmdExecTimeout = (if timeout > 0 then timeout else 30 * 60),
                   UserData = [''SDKID'' \<mapsto> ID (sdk s)],
                   SizeBufStdout = threshold LookupEnv Atoi ''XDS_SDK_BUF_STDOUT'' 10,
                   SizeBufStderr = threshold LookupEnv Atoi ''XDS_SDK_BUF_STDERR'' 2000\<rparr>;
            s = s\<lparr>installCmd := Some cmd, bufStdout := [], bufStderr := []\<rparr>;
            s = s\<lparr>sdk := (sdk s)\<lparr>Status := SdkStatusInstalling, LastError := []\<rparr>\<rparr>
        in (startErr, st\<lparr>cross := s, sdkCmdID := n\<rparr>))"

text \<open>
  The output callback. The type assertion on \<open>UserData["SDKID"]\<close> panics when the
  entry is missing; the debug log under \<open>LogLevelSilly\<close> slices \<open>e.Sid[4:]\<close> and
  \<open>sdkID[:16]\<close>. When the registry has no socket for the session the callback returns
  before it touches the buffers.
\<close>

definition OutputCB :: "Context \<Rightarrow> ExecOverWS \<Rightarrow> string \<Rightarrow> string \<Rightarrow> state \<Rightarrow> state go" where
  "OutputCB ctx e stdout stderr st =
     (case UserData e ''SDKID'' of
        None \<Rightarrow> Panic
      | Some sdkID \<Rightarrow>
         if \<not> IOSocketGet ctx (Sid e) then Ret st
         else if LogLevelSilly ctx \<and> (length (Sid e) < 4 \<or> length sdkID < 16) then Panic
         else
           let s = cross st;
               s = s\<lparr>bufStdout := bufStdout s @ stdout\<rparr>;
               s = s\<lparr>bufStderr := bufStderr s @ stderr\<rparr>
           in if int (length (bufStdout s)) > SizeBufStdout e \<or> int (length (bufStderr s)) > SizeBufStderr e
              then Ret (st\<lparr>emitted := emitted st @
                             [\<lparr>MsgCmdID = CmdID e, Sdk = sdk s, Progress = 0, Exited = False,
                               Stdout = bufStdout s, Stderr = bufStderr s, Code = 0, Err = []\<rparr>],
                           cross := s\<lparr>bufStdout := [], bufStderr := []\<rparr>\<rparr>)
              else Ret (st\<lparr>cross := s\<rparr>))"

text \<open>
  The exit callback, for a job that ended with exit code \<open>code\<close> and process error
  \<open>exitError\<close>. The debug log slices \<open>sdkID[:16]\<close> before anything else is done.
\<close>

definition ExitCB :: "Context \<Rightarrow> ExecOverWS \<Rightarrow> int \<Rightarrow> error option \<Rightarrow> state \<Rightarrow> state go" where
  "ExitCB ctx e code exitError st =
     (case UserData e ''SDKID'' of
        None \<Rightarrow> Panic
      | Some sdkID \<Rightarrow>
         if length sdkID < 16 then Panic
         else if \<not> IOSocketGet ctx (Sid e) then Ret st
         else
           let s = cross st;
               st = (if length (bufStderr s) > 0 \<or> length (bufStdout s) > 0
                     then st\<lparr>emitted := emitted st @
                               [\<lparr>MsgCmdID = CmdID e, Sdk = sdk s, Progress = 50, Exited = False,
                                 Stdout = bufStdout s, Stderr = bufStderr s, Code = 0, Err = []\<rparr>],
                             cross := s\<lparr>bufStdout := [], bufStderr := []\<rparr>\<rparr>
                     else st);
               s = cross st;
               k = (if code = 0 \<and> exitError = None
                    then (sdk s)\<lparr>LastError := [], Status := SdkStatusInstalled\<rparr>
                    else
                      let k = (sdk s)\<lparr>LastError := ''Installation failed (code '' @ Itoa code @ '')''\<rparr>;
                          k = (case exitError of
                                 None \<Rightarrow> k
                               | Some x \<Rightarrow> k\<lparr>LastError := ''. Error: '' @ Error x\<rparr>)
                      in k\<lparr>Status := SdkStatusNotInstalled\<rparr>);
               s = s\<lparr>sdk := k\<rparr>;
               emitErr = (case exitError of None \<Rightarrow> [] | Some x \<Rightarrow> Error x);
               emitErr = (if emitErr = [] \<and> LastError (sdk s) \<noteq> [] then LastError (sdk s) else emitErr)
           in Ret (st\<lparr>emitted := emitted st @
                         [\<lparr>MsgCmdID = CmdID e, Sdk = sdk s, Progress = 100, Exited = True,
                           Stdout = [], Stderr = [], Code = code, Err = emitErr\<rparr>],
                       cross := s\<lparr>installCmd := None\<rparr>\<rparr>))"

subsection \<open>AbortInstallRemove and Remove\<close>

text \<open>\<open>sigErr\<close> is what \<open>s.installCmd.Signal("SIGKILL")\<close> returns.\<close>

definition AbortInstallRemove :: "error option \<Rightarrow> int \<Rightarrow> state \<Rightarrow> error option \<times> state" where
  "AbortInstallRemove sigErr timeout st =
     (let s = cross st in
      if installCmd s = None then (Some NoOperationInProgress, st)
      else (sigErr, st\<lparr>cross := s\<lparr>sdk := (sdk s)\<lparr>Status := SdkStatusNotInstalled\<rparr>\<rparr>\<rparr>))"

text \<open>\<open>run\<close> is \<open>exec.Command(cmdline).CombinedOutput()\<close>: the output and the error.\<close>

definition Remove :: "(string \<Rightarrow> string \<times> error option) \<Rightarrow> state \<Rightarrow> error option \<times> state" where
  "Remove run st =
     (let s = cross st in
      if Status (sdk s) \<noteq> SdkStatusInstalled then (Some NotInstalled, st)
      else
        let s = s\<lparr>sdk := (sdk s)\<lparr>Status := SdkStatusUninstalling\<rparr>\<rparr>;
            cmdline = script s scriptRemove @ '' '' @ Path (sdk s)
        in case run cmdline of
             (out, Some e) \<Rightarrow> (Some (UninstallFailed e), st\<lparr>cross := s\<rparr>)
           | (out, None) \<Rightarrow> (None, st\<lparr>cross := s\<rparr>))"

text \<open>
  Modelled from the spec: the job supervisor (package \<open>eows\<close> of xds-common, not among
  the sources) invokes the output callback whenever the job produces output and the exit
  callback exactly once when the job terminates. Each call sees the context of its own
  moment, since the session registry is looked up anew every time. A panic ends the run.
\<close>

fun feed :: "ExecOverWS \<Rightarrow> (Context \<times> string \<times> string) list \<Rightarrow> state \<Rightarrow> state go" where
  "feed e [] st = Ret st"
| "feed e ((ctx, stdout, stderr) # rest) st =
     (case OutputCB ctx e stdout stderr st of Panic \<Rightarrow> Panic | Ret st' \<Rightarrow> feed e rest st')"

definition run_job :: "ExecOverWS \<Rightarrow> (Context \<times> string \<times> string) list \<Rightarrow> Context \<Rightarrow> int
    \<Rightarrow> error option \<Rightarrow> state \<Rightarrow> state go" where
  "run_job e outputs ctx code exitError st =
     (case feed e outputs st of Panic \<Rightarrow> Panic | Ret st' \<Rightarrow> ExitCB ctx e code exitError st')"

definition events_of :: "state go \<Rightarrow> SDKManagementMsg list option" where
  "events_of r = (case r of Panic \<Rightarrow> None | Ret st \<Rightarrow> Some (emitted st))"

text \<open>All the standard output of a job, in order.\<close>

fun total_stdout :: "(Context \<times> string \<times> string) list \<Rightarrow> string" where
  "total_stdout [] = []"
| "total_stdout ((ctx, stdout, stderr) # rest) = stdout @ total_stdout rest"

text \<open>The identifier of an accepted record: what \<open>NewCrossSDK\<close> stored when it returned
  without error.\<close>

definition accepted_id :: "(CrossSDK \<times> error option) go \<Rightarrow> string option" where
  "accepted_id r = (case r of Ret (s, None) \<Rightarrow> Some (ID (sdk s)) | _ \<Rightarrow> None)"

section \<open>The catalog reconciler (scripts/sdks/agl/db-dump)\<close>

text \<open>
  A JavaScript object is a map from property names to values; a property that is read
  and was never set is \<open>undefined\<close>, here \<open>None\<close>. All values the script reads or writes
  are strings, so a value is a \<open>string\<close>. An array index past the end reads \<open>undefined\<close>
  as well. \<open>==\<close> between two strings compares them, between a string and \<open>undefined\<close> is
  false, between \<open>undefined\<close> and \<open>undefined\<close> is true: equality on \<open>string option\<close>.
\<close>

type_synonym jsobj = "string \<rightharpoonup> string"

text \<open>\<open>String.prototype.split\<close> with a one-character separator.\<close>

fun split_on :: "char \<Rightarrow> string \<Rightarrow> string list" where
  "split_on c [] = [[]]"
| "split_on c (x # xs) =
     (if x = c then [] # split_on c xs
      else (case split_on c xs of [] \<Rightarrow> [[x]] | w # ws \<Rightarrow> (x # w) # ws))"

definition at_index :: "'a list \<Rightarrow> nat \<Rightarrow> 'a option" where
  "at_index xs i = (if i < length xs then Some (xs ! i) else None)"

text \<open>\<open>d.substring(a, b)\<close> for \<open>a \<le> b\<close>: both ends are clamped to the length.\<close>

definition substring :: "nat \<Rightarrow> nat \<Rightarrow> string \<Rightarrow> string" where
  "substring a b d = take (b - a) (drop a d)"

text \<open>String concatenation converts \<open>undefined\<close> to the text "undefined".\<close>

definition js_str :: "string option \<Rightarrow> string" where
  "js_str v = (case v of None \<Rightarrow> ''undefined'' | Some t \<Rightarrow> t)"

text \<open>The logical key of an install path and of an entry: profile, version, arch.\<close>

definition install_key :: "string \<Rightarrow> string option \<times> string option \<times> string option" where
  "install_key envFile =
     (let parts = split_on CHR ''/'' envFile
      in (at_index parts 3, at_index parts 4, at_index parts 5))"

definition entry_key :: "jsobj \<Rightarrow> string option \<times> string option \<times> string option" where
  "entry_key e = (e ''profile'', e ''version'', e ''arch'')"

definition format_date :: "string \<Rightarrow> string" where
  "format_date d =
     (if d \<noteq> [] then
        substring 0 4 d @ ''-'' @ substring 4 6 d @ ''-'' @ substring 6 8 d
          @ '' '' @ substring 8 10 d @ '':'' @ substring 10 12 d
      else [])"

text \<open>The update of an entry that matches, property by property as the script assigns
  them (the date goes to the property \<open>data\<close>), and the body of the inner \<open>forEach\<close>.\<close>

definition update_found :: "string \<Rightarrow> string \<Rightarrow> string \<Rightarrow> jsobj \<Rightarrow> jsobj" where
  "update_found dir sdkDate envFile e =
     e(''path'' \<mapsto> dir, ''status'' \<mapsto> ''Installed'', ''data'' \<mapsto> sdkDate, ''setupFile'' \<mapsto> envFile)"

definition update_entry :: "string option \<times> string option \<times> string option \<Rightarrow> string \<Rightarrow> string
    \<Rightarrow> string \<Rightarrow> jsobj \<Rightarrow> jsobj" where
  "update_entry k dir sdkDate envFile e =
     (if k = entry_key e then update_found dir sdkDate envFile e else e)"

text \<open>The entry pushed for an install the catalog does not have.\<close>

definition synth_name :: "string option \<times> string option \<times> string option \<Rightarrow> string" where
  "synth_name k = (case k of (profile, version, arch) \<Rightarrow>
     js_str profile @ ''-'' @ js_str arch @ ''-'' @ js_str version)"

definition new_entry :: "string option \<times> string option \<times> string option \<Rightarrow> string \<Rightarrow> string
    \<Rightarrow> string \<Rightarrow> jsobj" where
  "new_entry k dir sdkDate envFile = (case k of (profile, version, arch) \<Rightarrow>
     (Map.empty
        (''name'' \<mapsto> synth_name k,
         ''description'' \<mapsto> ''AGL SDK '' @ js_str arch @ '' (version '' @ js_str version @ '')''))
        (''profile'' := profile, ''version'' := version, ''arch'' := arch,
         ''path'' \<mapsto> dir, ''url'' \<mapsto> [], ''status'' \<mapsto> ''Installed'', ''date'' \<mapsto> sdkDate,
         ''size'' \<mapsto> [], ''md5sum'' \<mapsto> [], ''setupFile'' \<mapsto> envFile))"

text \<open>
  One line of the \<open>find\<close> output. \<open>dirname\<close> is Node's \<open>path.dirname\<close>; \<open>execVer\<close> is
  \<open>execSync(cmdVer)\<close> as a function of the install directory whose \<open>version-*\<close> file the
  command reads: its output, or \<open>None\<close> when it throws (the command failed). The result
  is the array after this line, or \<open>None\<close> when the script exits with \<open>-1\<close> (only under
  \<open>DEBUG\<close>).
\<close>

definition process_envFile :: "(string \<Rightarrow> string) \<Rightarrow> (string \<Rightarrow> string option) \<Rightarrow> bool
    \<Rightarrow> string \<Rightarrow> jsobj list \<Rightarrow> jsobj list option" where
  "process_envFile dirname execVer DEBUG envFile sdks =
     (if envFile = [] then Some sdks
      else
        let k = install_key envFile;
            dir = dirname envFile
        in if fst k = Some [] \<or> fst (snd k) = Some [] \<or> snd (snd k) = Some [] \<or> dir = []
           then Some sdks
           else case execVer dir of
             None \<Rightarrow> (if DEBUG then None else Some sdks)
           | Some d \<Rightarrow>
              let sdkDate = format_date d;
                  found = list_ex (\<lambda>e. k = entry_key e) sdks;
                  sdks = map (update_entry k dir sdkDate envFile) sdks
              in if \<not> found then Some (sdks @ [new_entry k dir sdkDate envFile]) else Some sdks)"

fun scan :: "(string \<Rightarrow> string) \<Rightarrow> (string \<Rightarrow> string option) \<Rightarrow> bool
    \<Rightarrow> string list \<Rightarrow> jsobj list \<Rightarrow> jsobj list option" where
  "scan dirname execVer DEBUG [] sdks = Some sdks"
| "scan dirname execVer DEBUG (envFile # rest) sdks =
     (case process_envFile dirname execVer DEBUG envFile sdks of
        None \<Rightarrow> None
      | Some sdks' \<Rightarrow> scan dirname execVer DEBUG rest sdks')"

text \<open>
  The script from the parsed catalog on: \<open>catalog\<close> is \<open>JSON.parse(data)\<close>, \<open>envFiles\<close> are
  the lines of the \<open>find\<close> output (\<open>data.toString().split('\n')\<close>). The result is the
  array that is printed.
\<close>

definition db_dump :: "(string \<Rightarrow> string) \<Rightarrow> (string \<Rightarrow> string option) \<Rightarrow> bool
    \<Rightarrow> jsobj list \<Rightarrow> string list \<Rightarrow> jsobj list option" where
  "db_dump dirname execVer DEBUG catalog envFiles =
     scan dirname execVer DEBUG envFiles (map (\<lambda>e. e(''status'' \<mapsto> ''Not Installed'')) catalog)"

text \<open>An install the scan processes: a line that is not skipped at any of the three
  early returns.\<close>

definition local_install :: "(string \<Rightarrow> string) \<Rightarrow> (string \<Rightarrow> string option) \<Rightarrow> string \<Rightarrow> bool" where
  "local_install dirname execVer envFile \<longleftrightarrow>
     envFile \<noteq> [] \<and> fst (install_key envFile) \<noteq> Some [] \<and> fst (snd (install_key envFile)) \<noteq> Some []
     \<and> snd (snd (install_key envFile)) \<noteq> Some [] \<and> dirname envFile \<noteq> []
     \<and> execVer (dirname envFile) \<noteq> None"

text \<open>
  An entry as the scan synthesizes or has updated it: installed, named after its own key,
  with a non-empty path, and with the key of a processed install among \<open>F\<close>.
\<close>

definition synthesized :: "(string \<Rightarrow> string) \<Rightarrow> (string \<Rightarrow> string option) \<Rightarrow> string set
    \<Rightarrow> jsobj \<Rightarrow> bool" where
  "synthesized dirname execVer F e \<longleftrightarrow>
     e ''status'' = Some ''Installed'' \<and> e ''name'' = Some (synth_name (entry_key e))
     \<and> (\<exists>p. e ''path'' = Some p \<and> p \<noteq> [])
     \<and> (\<exists>f \<in> F. local_install dirname execVer f \<and> install_key f = entry_key e)"

text \<open>An entry the scan has matched and filled in.\<close>

definition filled :: "jsobj \<Rightarrow> bool" where
  "filled e \<longleftrightarrow>
     e ''status'' = Some ''Installed'' \<and> (\<exists>p. e ''path'' = Some p \<and> p \<noteq> [])
     \<and> (\<exists>g. e ''setupFile'' = Some g \<and> g \<noteq> []) \<and> (\<exists>t. e ''data'' = Some t)"

text \<open>The properties the scan may write on an entry it did not create.\<close>

definition written_props :: "string set" where
  "written_props = {''path'', ''status'', ''data'', ''setupFile''}"

section \<open>Concrete inputs\<close>

text \<open>Small inputs on which the functions above are evaluated below.\<close>

definition example_sdk :: SDK where
  "example_sdk =
     \<lparr>ID = [], Name = ''agl-aarch64-7.0.0'', Description = ''AGL SDK aarch64 (version 7.0.0)'',
      Profile = ''agl'', Version = ''7.0.0'', Arch = ''aarch64'', Path = [],
      URL = ''http://example.org/agl-aarch64-7.0.0.sh'', Status = [], Date = [], Size = [],
      Md5sum = [], SetupFile = [], LastError = ''stale error'',
      FamilyConf = \<lparr>FamilyName = [], RootDir = [], EnvSetupFile = []\<rparr>\<rparr>"

text \<open>A file system where every path exists, a \<open>get-config\<close> script that answers with
  a complete configuration, and a stand-in for the UUID function.\<close>

definition example_os :: OS where
  "example_os =
     \<lparr>Exists = (\<lambda>p. True),
      Join = (\<lambda>d f. d @ ''/'' @ f),
      CombinedOutput = (\<lambda>c. (''{}'', None)),
      Unmarshal = (\<lambda>out c. (\<lparr>FamilyName = ''agl'', RootDir = ''/xdt/sdk'',
                                 EnvSetupFile = ''environment-setup*''\<rparr>, None)),
      NewV3 = (\<lambda>nm. ''uuid-v3-of-sdks-'' @ nm)\<rparr>"

definition example_cross :: "string \<Rightarrow> ExecOverWS option \<Rightarrow> CrossSDK" where
  "example_cross status job =
     \<lparr>sdk = example_sdk\<lparr>ID := ''0123456789abcdef-0123'', Status := status, LastError := []\<rparr>,
      scripts = [''add'' \<mapsto> ''/scripts/agl/add'', ''remove'' \<mapsto> ''/scripts/agl/remove''],
      installCmd = job, removeCmd = None, bufStdout = [], bufStderr = []\<rparr>"

definition example_state :: "string \<Rightarrow> ExecOverWS option \<Rightarrow> state" where
  "example_state status job = \<lparr>cross = example_cross status job, sdkCmdID = 0, emitted = []\<rparr>"

definition example_job :: "string \<Rightarrow> int \<Rightarrow> int \<Rightarrow> ExecOverWS" where
  "example_job sdkID nout nerr =
     \<lparr>Cmd = ''/scripts/agl/add'', Args = [''--url'', ''http://example.org/agl-aarch64-7.0.0.sh''],
      Sid = ''sid-1'', CmdID = ''sdk-install-1'', CmdExecTimeout = 1800,
      UserData = [''SDKID'' \<mapsto> sdkID], SizeBufStdout = nout, SizeBufStderr = nerr\<rparr>"

definition ctx_open :: Context where
  "ctx_open = \<lparr>IOSocketGet = (\<lambda>sid. True), LogLevelSilly = False\<rparr>"

definition ctx_closed :: Context where
  "ctx_closed = \<lparr>IOSocketGet = (\<lambda>sid. False), LogLevelSilly = False\<rparr>"

text \<open>A stand-in for \<open>path.dirname\<close>, right on paths without a trailing or doubled slash
  that have a directory part.\<close>

definition example_dirname :: "string \<Rightarrow> string" where
  "example_dirname p =
     (let segs = butlast (split_on CHR ''/'' p)
      in if segs = [] then ''.'' else foldr (\<lambda>a b. if b = [] then a else a @ ''/'' @ b) segs [])"

definition example_catalog :: "jsobj list" where
  "example_catalog =
     [[''name'' \<mapsto> ''agl-aarch64-7.0.0'', ''profile'' \<mapsto> ''agl'', ''version'' \<mapsto> ''7.0.0'',
       ''arch'' \<mapsto> ''aarch64'', ''date'' \<mapsto> []]]"

section \<open>Properties of the SDK manager\<close>

lemmas SdkStatus_defs =
  SdkStatusNotInstalled_def SdkStatusInstalling_def SdkStatusUninstalling_def SdkStatusInstalled_def

lemmas example_defs =
  example_sdk_def example_os_def example_cross_def example_state_def example_job_def
  ctx_open_def ctx_closed_def

subsection \<open>The exit callback\<close>

text \<open>
  With a socket for the session, the exit callback does what is expected of it: it
  returns, releases the job handle, and sets status and last error from the exit code
  and the process error. When there is a process error the message holds that error
  only: the second assignment replaces the text with the exit code.
\<close>

lemma ExitCB_reachable:
  assumes "UserData e ''SDKID'' = Some i" and "16 \<le> length i" and "IOSocketGet ctx (Sid e)"
  shows "\<exists>st'. ExitCB ctx e code exitError st = Ret st'
     \<and> installCmd (cross st') = None
     \<and> (code = 0 \<and> exitError = None \<longrightarrow>
          Status (sdk (cross st')) = SdkStatusInstalled \<and> LastError (sdk (cross st')) = [])
     \<and> (code \<noteq> 0 \<and> exitError = None \<longrightarrow>
          Status (sdk (cross st')) = SdkStatusNotInstalled
          \<and> LastError (sdk (cross st')) = ''Installation failed (code '' @ Itoa code @ '')'')
     \<and> (\<forall>x. exitError = Some x \<longrightarrow>
          Status (sdk (cross st')) = SdkStatusNotInstalled
          \<and> LastError (sdk (cross st')) = ''. Error: '' @ Error x)"
  using assms by (auto simp: ExitCB_def Let_def)

lemma ExitCB_flush:
  assumes "UserData e ''SDKID'' = Some i" and "16 \<le> length i" and "IOSocketGet ctx (Sid e)"
  shows "\<exists>st' t. ExitCB ctx e code exitError st = Ret st'
     \<and> emitted st' = emitted st @
          (if bufStdout (cross st) = [] \<and> bufStderr (cross st) = [] then []
           else [\<lparr>MsgCmdID = CmdID e, Sdk = sdk (cross st), Progress = 50, Exited = False,
                  Stdout = bufStdout (cross st), Stderr = bufStderr (cross st), Code = 0, Err = []\<rparr>])
          @ [t]
     \<and> Exited t \<and> Progress t = 100 \<and> Code t = code \<and> MsgCmdID t = CmdID e"
  using assms by (auto simp: ExitCB_def Let_def)

text \<open>Without a socket for the session, the exit callback changes nothing.\<close>

lemma ExitCB_unreachable:
  assumes "UserData e ''SDKID'' = Some i" and "16 \<le> length i" and "\<not> IOSocketGet ctx (Sid e)"
  shows "ExitCB ctx e code exitError st = Ret st"
  using assms by (simp add: ExitCB_def)

text \<open>
  C1. After the exit callback has run, the status is Installed with an empty last error
  (exit code 0, no process error) or NotInstalled with a non-empty last error
  (otherwise), and the job handle is cleared, whether or not the transport session can
  still be reached. The code does not do this when the session is gone: the callback
  returns before the update. Below, a job that exited with code 0 and no error, on an SDK
  in state Installing whose session has no socket any more: the state after the callback
  is the state before it, so the status is still Installing and the handle still held.
\<close>

theorem exit_callback_without_session:
  "ExitCB ctx_closed (example_job ''0123456789abcdef-0123'' 10 2000) 0 None
       (example_state SdkStatusInstalling (Some (example_job ''0123456789abcdef-0123'' 10 2000)))
     = Ret (example_state SdkStatusInstalling (Some (example_job ''0123456789abcdef-0123'' 10 2000)))
   \<and> Status (sdk (cross (example_state SdkStatusInstalling
          (Some (example_job ''0123456789abcdef-0123'' 10 2000))))) = SdkStatusInstalling
   \<and> installCmd (cross (example_state SdkStatusInstalling
          (Some (example_job ''0123456789abcdef-0123'' 10 2000)))) \<noteq> None"
  by (simp add: ExitCB_def example_defs)

subsection \<open>Remove\<close>

text \<open>On an installed SDK, Remove leaves the status Uninstalling whatever the script did,
  and returns an error exactly when the script failed.\<close>

lemma Remove_installed:
  assumes "Status (sdk (cross st)) = SdkStatusInstalled"
  shows "Status (sdk (cross (snd (Remove run st)))) = SdkStatusUninstalling
       \<and> (fst (Remove run st) = None \<longleftrightarrow> snd (run (script (cross st) scriptRemove @ '' '' @ Path (sdk (cross st)))) = None)"
  using assms by (auto simp: Remove_def Let_def script_def split: prod.splits option.splits)

text \<open>
  C2. On an installed SDK, Remove sets the status to Uninstalling and runs the remove
  script; if the script succeeds Remove returns no error and the status is NotInstalled,
  if it fails Remove returns an error and the status stays Uninstalling. The code never
  assigns NotInstalled: below, a remove script that succeeds, after which Remove returns
  no error and the status is Uninstalling.
\<close>

theorem remove_success_leaves_uninstalling:
  "fst (Remove (\<lambda>cmdline. ([], None)) (example_state SdkStatusInstalled None)) = None
   \<and> Status (sdk (cross (snd (Remove (\<lambda>cmdline. ([], None)) (example_state SdkStatusInstalled None)))))
       = SdkStatusUninstalling
   \<and> SdkStatusUninstalling \<noteq> SdkStatusNotInstalled"
  by (simp add: Remove_def example_defs SdkStatus_defs)

subsection \<open>Install\<close>

text \<open>An Install that passes the two checks returns what starting the job returned, with
  the status Installing, the last error empty and the job handle held, also when the
  start failed.\<close>

lemma Install_started:
  assumes "Status (sdk (cross st)) \<noteq> SdkStatusInstalled"
    and "Status (sdk (cross st)) \<noteq> SdkStatusInstalling"
  shows "fst (Install LookupEnv Atoi startErr file force timeout sessID st) = startErr
       \<and> Status (sdk (cross (snd (Install LookupEnv Atoi startErr file force timeout sessID st))))
           = SdkStatusInstalling
       \<and> LastError (sdk (cross (snd (Install LookupEnv Atoi startErr file force timeout sessID st)))) = []
       \<and> installCmd (cross (snd (Install LookupEnv Atoi startErr file force timeout sessID st))) \<noteq> None"
  using assms by (simp add: Install_def Let_def)

text \<open>
  C3. An Install that passes the precondition checks sets the status to Installing and
  clears the last error before it returns; if the job cannot start, Install returns the
  spawn error and the status is back to NotInstalled. The code returns what \<open>Start\<close>
  returned and nothing else: below, a start that fails, after which the status is
  Installing and the job handle is held.
\<close>

theorem install_start_failure_keeps_installing:
  "fst (Install Map.empty (\<lambda>v. None) (Some (ProcessError ''fork/exec /scripts/agl/add: permission denied''))
          [] False 0 ''sid-1'' (example_state SdkStatusNotInstalled None))
     = Some (ProcessError ''fork/exec /scripts/agl/add: permission denied'')
   \<and> Status (sdk (cross (snd (Install Map.empty (\<lambda>v. None)
          (Some (ProcessError ''fork/exec /scripts/agl/add: permission denied''))
          [] False 0 ''sid-1'' (example_state SdkStatusNotInstalled None))))) = SdkStatusInstalling
   \<and> installCmd (cross (snd (Install Map.empty (\<lambda>v. None)
          (Some (ProcessError ''fork/exec /scripts/agl/add: permission denied''))
          [] False 0 ''sid-1'' (example_state SdkStatusNotInstalled None)))) \<noteq> None
   \<and> SdkStatusInstalling \<noteq> SdkStatusNotInstalled"
  by (simp add: Install_def example_defs SdkStatus_defs Let_def)

subsection \<open>NewCrossSDK\<close>

text \<open>An accepted record is stored with the derived identifier and with the status and
  last error it came with.\<close>

lemma check_definition_name: "check_definition os k = None \<Longrightarrow> Name k \<noteq> []"
  by (auto simp: check_definition_def split: if_splits)

lemma NewCrossSDK_accepted:
  assumes "NewCrossSDK os a d = Ret (s, None)"
  shows "ID (sdk s) = NewV3 os (Name a) \<and> Name a \<noteq> [] \<and> Status (sdk s) = Status a
         \<and> LastError (sdk s) = LastError a"
  using assms
  by (auto simp: NewCrossSDK_def Let_def derive_id_def id_name_def
           split: prod.splits option.splits if_splits dest!: check_definition_name)

lemma accepted_id_Some:
  "accepted_id (NewCrossSDK os a d) \<noteq> None \<Longrightarrow> accepted_id (NewCrossSDK os a d) = Some (NewV3 os (Name a))"
  using NewCrossSDK_accepted[of os a d]
  by (auto simp: accepted_id_def split: go.splits option.splits prod.splits)

text \<open>
  C4. For a record the validator accepts, the stored record has its last error reset to
  the empty string and, if the status was unset, its status set to NotInstalled. The
  code assigns both defaults to the by-value parameter after the stored copy was taken:
  below, an accepted record whose stored copy keeps its old last error and its empty
  status.
\<close>

theorem new_sdk_keeps_last_error_and_empty_status:
  "(case NewCrossSDK example_os example_sdk ''/scripts/agl'' of
      Panic \<Rightarrow> False
    | Ret (s, e) \<Rightarrow> e = None \<and> Status (sdk s) = [] \<and> LastError (sdk s) = ''stale error'')
   \<and> Status example_sdk = [] \<and> LastError example_sdk = ''stale error''"
  by (simp add: NewCrossSDK_def example_os_def example_sdk_def scriptsAll_def check_definition_def
        derive_id_def id_name_def SdkStatus_defs scriptGetConfig_def Let_def)

text \<open>
  C5. The identity derivation is deterministic: two records with the same name (or, with
  an empty name, the same profile, arch and version) get the same identifier, in any
  call. The identifier is a function of that name alone (given the UUID function): the
  first part is the derivation itself, the second is \<open>NewCrossSDK\<close> on two accepted
  records with the same name, whatever the other fields, the script directories and the
  rest of the outside world are.
\<close>

theorem identity_derivation_deterministic:
  "(Name a = Name b \<and> (Name a = [] \<longrightarrow> Profile a = Profile b \<and> Arch a = Arch b \<and> Version a = Version b)
      \<longrightarrow> derive_id os a = derive_id os b)
   \<and> (accepted_id (NewCrossSDK os a dirA) \<noteq> None \<and> accepted_id (NewCrossSDK os' b dirB) \<noteq> None
        \<and> NewV3 os' = NewV3 os \<and> Name a = Name b
      \<longrightarrow> accepted_id (NewCrossSDK os a dirA) = accepted_id (NewCrossSDK os' b dirB))"
proof (intro conjI impI)
  assume "Name a = Name b \<and> (Name a = [] \<longrightarrow> Profile a = Profile b \<and> Arch a = Arch b \<and> Version a = Version b)"
  then show "derive_id os a = derive_id os b"
    by (auto simp: derive_id_def id_name_def)
next
  assume h: "accepted_id (NewCrossSDK os a dirA) \<noteq> None \<and> accepted_id (NewCrossSDK os' b dirB) \<noteq> None
        \<and> NewV3 os' = NewV3 os \<and> Name a = Name b"
  then show "accepted_id (NewCrossSDK os a dirA) = accepted_id (NewCrossSDK os' b dirB)"
    by (simp add: accepted_id_Some)
qed

theorem identity_derivation_deterministic_witness:
  "derive_id example_os (example_sdk\<lparr>Name := [], Description := ''one''\<rparr>)
     = derive_id example_os (example_sdk\<lparr>Name := [], Description := ''two'', URL := []\<rparr>)
   \<and> accepted_id (NewCrossSDK example_os example_sdk ''/scripts/agl'') \<noteq> None
   \<and> accepted_id (NewCrossSDK (example_os\<lparr>Join := (\<lambda>d f. d @ f)\<rparr>)
        (example_sdk\<lparr>Version := ''8.0.0'', Status := SdkStatusNotInstalled\<rparr>) ''/other/'') \<noteq> None
   \<and> accepted_id (NewCrossSDK example_os example_sdk ''/scripts/agl'')
     = accepted_id (NewCrossSDK (example_os\<lparr>Join := (\<lambda>d f. d @ f)\<rparr>)
        (example_sdk\<lparr>Version := ''8.0.0'', Status := SdkStatusNotInstalled\<rparr>) ''/other/'')"
proof -
  have a: "accepted_id (NewCrossSDK example_os example_sdk ''/scripts/agl'') \<noteq> None"
    by (simp add: accepted_id_def NewCrossSDK_def example_os_def example_sdk_def scriptsAll_def
          check_definition_def derive_id_def id_name_def SdkStatus_defs scriptGetConfig_def Let_def)
  have b: "accepted_id (NewCrossSDK (example_os\<lparr>Join := (\<lambda>d f. d @ f)\<rparr>)
        (example_sdk\<lparr>Version := ''8.0.0'', Status := SdkStatusNotInstalled\<rparr>) ''/other/'') \<noteq> None"
    by (simp add: accepted_id_def NewCrossSDK_def example_os_def example_sdk_def scriptsAll_def
          check_definition_def derive_id_def id_name_def SdkStatus_defs scriptGetConfig_def Let_def)
  have n: "Name example_sdk = Name (example_sdk\<lparr>Version := ''8.0.0'', Status := SdkStatusNotInstalled\<rparr>)"
    by simp
  have v: "NewV3 (example_os\<lparr>Join := (\<lambda>d f. d @ f)\<rparr>) = NewV3 example_os"
    by simp
  have k: "Name (example_sdk\<lparr>Name := [], Description := ''one''\<rparr>)
             = Name (example_sdk\<lparr>Name := [], Description := ''two'', URL := []\<rparr>)
           \<and> (Name (example_sdk\<lparr>Name := [], Description := ''one''\<rparr>) = [] \<longrightarrow>
                Profile (example_sdk\<lparr>Name := [], Description := ''one''\<rparr>)
                  = Profile (example_sdk\<lparr>Name := [], Description := ''two'', URL := []\<rparr>)
                \<and> Arch (example_sdk\<lparr>Name := [], Description := ''one''\<rparr>)
                  = Arch (example_sdk\<lparr>Name := [], Description := ''two'', URL := []\<rparr>)
                \<and> Version (example_sdk\<lparr>Name := [], Description := ''one''\<rparr>)
                  = Version (example_sdk\<lparr>Name := [], Description := ''two'', URL := []\<rparr>))"
    by simp
  from identity_derivation_deterministic
         [of "example_sdk\<lparr>Name := [], Description := ''one''\<rparr>"
             "example_sdk\<lparr>Name := [], Description := ''two'', URL := []\<rparr>" example_os]
       k
  have 1: "derive_id example_os (example_sdk\<lparr>Name := [], Description := ''one''\<rparr>)
     = derive_id example_os (example_sdk\<lparr>Name := [], Description := ''two'', URL := []\<rparr>)"
    by blast
  from identity_derivation_deterministic
         [of example_sdk "example_sdk\<lparr>Version := ''8.0.0'', Status := SdkStatusNotInstalled\<rparr>"
             example_os "''/scripts/agl''" "example_os\<lparr>Join := (\<lambda>d f. d @ f)\<rparr>" "''/other/''"]
       a b n v
  have 2: "accepted_id (NewCrossSDK example_os example_sdk ''/scripts/agl'')
     = accepted_id (NewCrossSDK (example_os\<lparr>Join := (\<lambda>d f. d @ f)\<rparr>)
        (example_sdk\<lparr>Version := ''8.0.0'', Status := SdkStatusNotInstalled\<rparr>) ''/other/'')"
    by blast
  from 1 a b 2 show ?thesis by blast
qed

subsection \<open>Precondition violations\<close>

text \<open>
  C8. Precondition violations are rejected at once and change nothing: Install on an
  installed SDK fails with AlreadyInstalled, Install during an installation fails with
  InstallInProgress, AbortInstallRemove without a job handle fails with
  NoOperationInProgress, and in each case the state returned is the state given: every
  field of the instance, the command counter and the emitted messages.
\<close>

theorem precondition_violations_change_nothing:
  "(Status (sdk (cross st)) = SdkStatusInstalled \<longrightarrow>
      Install LookupEnv Atoi startErr file force timeout sessID st = (Some AlreadyInstalled, st))
   \<and> (Status (sdk (cross st)) = SdkStatusInstalling \<longrightarrow>
      Install LookupEnv Atoi startErr file force timeout sessID st = (Some InstallInProgress, st))
   \<and> (installCmd (cross st) = None \<longrightarrow>
      AbortInstallRemove sigErr timeout' st = (Some NoOperationInProgress, st))"
  by (simp add: Install_def AbortInstallRemove_def SdkStatus_defs)

theorem precondition_violations_change_nothing_witness:
  "Install Map.empty (\<lambda>v. None) None [] False 0 ''sid-1'' (example_state SdkStatusInstalled None)
     = (Some AlreadyInstalled, example_state SdkStatusInstalled None)
   \<and> Install Map.empty (\<lambda>v. None) None [] False 0 ''sid-1''
         (example_state SdkStatusInstalling (Some (example_job ''0123456789abcdef-0123'' 10 2000)))
     = (Some InstallInProgress,
        example_state SdkStatusInstalling (Some (example_job ''0123456789abcdef-0123'' 10 2000)))
   \<and> AbortInstallRemove None 0 (example_state SdkStatusNotInstalled None)
     = (Some NoOperationInProgress, example_state SdkStatusNotInstalled None)"
proof -
  have a: "Status (sdk (cross (example_state SdkStatusInstalled None))) = SdkStatusInstalled"
    by (simp add: example_defs)
  have b: "Status (sdk (cross (example_state SdkStatusInstalling
             (Some (example_job ''0123456789abcdef-0123'' 10 2000))))) = SdkStatusInstalling"
    by (simp add: example_defs)
  have c: "installCmd (cross (example_state SdkStatusNotInstalled None)) = None"
    by (simp add: example_defs)
  from precondition_violations_change_nothing
         [of "example_state SdkStatusInstalled None" Map.empty "\<lambda>v. None" None "[]" False 0 "''sid-1''"] a
  have 1: "Install Map.empty (\<lambda>v. None) None [] False 0 ''sid-1'' (example_state SdkStatusInstalled None)
     = (Some AlreadyInstalled, example_state SdkStatusInstalled None)"
    by blast
  from precondition_violations_change_nothing
         [of "example_state SdkStatusInstalling (Some (example_job ''0123456789abcdef-0123'' 10 2000))"
             Map.empty "\<lambda>v. None" None "[]" False 0 "''sid-1''"] b
  have 2: "Install Map.empty (\<lambda>v. None) None [] False 0 ''sid-1''
         (example_state SdkStatusInstalling (Some (example_job ''0123456789abcdef-0123'' 10 2000)))
     = (Some InstallInProgress,
        example_state SdkStatusInstalling (Some (example_job ''0123456789abcdef-0123'' 10 2000)))"
    by blast
  from precondition_violations_change_nothing
         [of "example_state SdkStatusNotInstalled None" _ _ _ _ _ _ _ None 0] c
  have 3: "AbortInstallRemove None 0 (example_state SdkStatusNotInstalled None)
     = (Some NoOperationInProgress, example_state SdkStatusNotInstalled None)"
    by blast
  from 1 2 3 show ?thesis by blast
qed

subsection \<open>Buffered output\<close>

lemma feed_quiet:
  assumes "UserData e ''SDKID'' = Some i"
    and "\<forall>(ctx, out, err) \<in> set outputs. IOSocketGet ctx (Sid e) \<and> err = []
           \<and> (LogLevelSilly ctx \<longrightarrow> 4 \<le> length (Sid e) \<and> 16 \<le> length i)"
    and "int (length (bufStdout (cross st) @ total_stdout outputs)) \<le> SizeBufStdout e"
    and "bufStderr (cross st) = []" and "0 \<le> SizeBufStderr e"
  shows "feed e outputs st =
     Ret (st\<lparr>cross := (cross st)\<lparr>bufStdout := bufStdout (cross st) @ total_stdout outputs\<rparr>\<rparr>)"
  using assms
proof (induction outputs arbitrary: st)
  case Nil
  then show ?case by simp
next
  case (Cons c outputs)
  obtain ctx out err where c: "c = (ctx, out, err)" by (cases c) auto
  let ?st1 = "st\<lparr>cross := (cross st)\<lparr>bufStdout := bufStdout (cross st) @ out\<rparr>\<rparr>"
  from Cons.prems c have step: "OutputCB ctx e out err st = Ret ?st1"
    by (auto simp: OutputCB_def Let_def)
  have "feed e outputs ?st1 = Ret (?st1\<lparr>cross := (cross ?st1)\<lparr>bufStdout := bufStdout (cross ?st1) @ total_stdout outputs\<rparr>\<rparr>)"
    using Cons.prems c by (intro Cons.IH) auto
  with step c show ?case by simp
qed

text \<open>
  C9. A job whose whole standard output stays at or below the stdout threshold and that
  writes nothing to standard error has no message emitted by the output callback, and
  its output is delivered all the same: the exit callback emits the buffered output as
  one message before the terminal one. As stated this fails: with no socket for the
  session at exit nothing is emitted at all, a negative stderr threshold makes the
  output callback emit, and a callback that panics emits nothing. It holds when every
  callback finds a socket for the session, the stderr threshold is not negative, the
  buffers start empty (as Install leaves them) and the callbacks do not panic (the job's
  user data holds an SDK id of 16 bytes or more and, at the silly log level, the session
  id has 4 bytes or more): then the output callbacks emit nothing, and the run emits
  exactly the buffered output (if there is any) as one message with progress 50, then
  the terminal message.
\<close>

theorem small_output_flushed_at_exit:
  assumes "UserData e ''SDKID'' = Some i" and "16 \<le> length i"
    and "\<forall>(c, out, err) \<in> set outputs. IOSocketGet c (Sid e) \<and> err = []
           \<and> (LogLevelSilly c \<longrightarrow> 4 \<le> length (Sid e))"
    and "IOSocketGet ctx (Sid e)"
    and "int (length (total_stdout outputs)) \<le> SizeBufStdout e" and "0 \<le> SizeBufStderr e"
    and "bufStdout (cross st) = []" and "bufStderr (cross st) = []"
  shows "events_of (feed e outputs st) = Some (emitted st)
     \<and> (\<exists>t. events_of (run_job e outputs ctx code exitError st) =
          Some (emitted st @
             (if total_stdout outputs = [] then []
              else [\<lparr>MsgCmdID = CmdID e, Sdk = sdk (cross st), Progress = 50, Exited = False,
                     Stdout = total_stdout outputs, Stderr = [], Code = 0, Err = []\<rparr>])
             @ [t])
          \<and> Exited t \<and> Progress t = 100 \<and> Code t = code)"
proof -
  let ?st1 = "st\<lparr>cross := (cross st)\<lparr>bufStdout := bufStdout (cross st) @ total_stdout outputs\<rparr>\<rparr>"
  have f: "feed e outputs st = Ret ?st1"
    using assms by (intro feed_quiet[where i = i]) auto
  obtain st' t where x: "ExitCB ctx e code exitError ?st1 = Ret st'"
     "emitted st' = emitted ?st1 @
          (if bufStdout (cross ?st1) = [] \<and> bufStderr (cross ?st1) = [] then []
           else [\<lparr>MsgCmdID = CmdID e, Sdk = sdk (cross ?st1), Progress = 50, Exited = False,
                  Stdout = bufStdout (cross ?st1), Stderr = bufStderr (cross ?st1), Code = 0, Err = []\<rparr>])
          @ [t]"
     "Exited t" "Progress t = 100" "Code t = code"
    using ExitCB_flush[OF assms(1,2,4), of code exitError ?st1] by blast
  have "events_of (feed e outputs st) = Some (emitted st)"
    using f by (simp add: events_of_def)
  moreover have "events_of (run_job e outputs ctx code exitError st) = Some (emitted st')"
    using f x(1) by (simp add: events_of_def run_job_def)
  ultimately show ?thesis
    using x(2-5) assms(7,8) by auto
qed

theorem small_output_flushed_at_exit_witness:
  "events_of (feed (example_job ''0123456789abcdef-0123'' 10 2000)
        [(ctx_open, ''ab'', []), (ctx_open, ''cd'', [])]
        (example_state SdkStatusInstalling (Some (example_job ''0123456789abcdef-0123'' 10 2000))))
     = Some []
   \<and> (\<exists>t. events_of (run_job (example_job ''0123456789abcdef-0123'' 10 2000)
        [(ctx_open, ''ab'', []), (ctx_open, ''cd'', [])] ctx_open 0 None
        (example_state SdkStatusInstalling (Some (example_job ''0123456789abcdef-0123'' 10 2000))))
       = Some [\<lparr>MsgCmdID = ''sdk-install-1'',
                Sdk = sdk (example_cross SdkStatusInstalling (Some (example_job ''0123456789abcdef-0123'' 10 2000))),
                Progress = 50, Exited = False, Stdout = ''abcd'', Stderr = [], Code = 0, Err = []\<rparr>, t]
       \<and> Exited t \<and> Progress t = 100 \<and> Code t = 0)"
proof -
  let ?e = "example_job ''0123456789abcdef-0123'' 10 2000"
  let ?outs = "[(ctx_open, ''ab'', []), (ctx_open, ''cd'', [])]"
  let ?st = "example_state SdkStatusInstalling (Some ?e)"
  have h1: "UserData ?e ''SDKID'' = Some ''0123456789abcdef-0123''"
    by (simp add: example_defs)
  have h2: "16 \<le> length ''0123456789abcdef-0123''" by simp
  have h3: "\<forall>(c, out, err) \<in> set ?outs. IOSocketGet c (Sid ?e) \<and> err = []
           \<and> (LogLevelSilly c \<longrightarrow> 4 \<le> length (Sid ?e))"
    by (simp add: example_defs)
  have h4: "IOSocketGet ctx_open (Sid ?e)" by (simp add: example_defs)
  have h5: "int (length (total_stdout ?outs)) \<le> SizeBufStdout ?e" by (simp add: example_defs)
  have h6: "0 \<le> SizeBufStderr ?e" by (simp add: example_defs)
  have h7: "bufStdout (cross ?st) = []" by (simp add: example_defs)
  have h8: "bufStderr (cross ?st) = []" by (simp add: example_defs)
  from small_output_flushed_at_exit[OF h1 h2 h3 h4 h5 h6 h7 h8, of 0 None]
  show ?thesis by (simp add: example_defs)
qed

theorem small_output_lost_counterexample:
  "events_of (run_job (example_job ''0123456789abcdef-0123'' 10 2000) [(ctx_open, ''ab'', [])]
        ctx_closed 0 None
        (example_state SdkStatusInstalling (Some (example_job ''0123456789abcdef-0123'' 10 2000))))
     = Some []
   \<and> events_of (feed (example_job ''0123456789abcdef-0123'' 10 (- 1)) [(ctx_open, ''ab'', [])]
        (example_state SdkStatusInstalling (Some (example_job ''0123456789abcdef-0123'' 10 (- 1)))))
     = Some [\<lparr>MsgCmdID = ''sdk-install-1'',
              Sdk = sdk (example_cross SdkStatusInstalling (Some (example_job ''0123456789abcdef-0123'' 10 (- 1)))),
              Progress = 0, Exited = False, Stdout = ''ab'', Stderr = [], Code = 0, Err = []\<rparr>]
   \<and> run_job (example_job ''short-id'' 10 2000) [(ctx_open, ''ab'', [])] ctx_open 0 None
        (example_state SdkStatusInstalling (Some (example_job ''short-id'' 10 2000)))
     = Panic"
  by (simp add: events_of_def run_job_def OutputCB_def ExitCB_def example_defs Let_def)

subsection \<open>Thresholds\<close>

text \<open>
  C10. The buffering thresholds of an Install are the integer values of the environment
  variables XDS_SDK_BUF_STDOUT and XDS_SDK_BUF_STDERR when these are set and parse as
  integers, and the defaults 10 and 2000 when a variable is unset or does not parse; a
  bad value is ignored and never makes Install fail: what Install returns is what
  starting the job returned, whatever the environment holds.
\<close>

theorem install_thresholds_from_environment:
  assumes "Status (sdk (cross st)) \<noteq> SdkStatusInstalled"
    and "Status (sdk (cross st)) \<noteq> SdkStatusInstalling"
  shows "\<exists>e st'. Install LookupEnv Atoi startErr file force timeout sessID st = (startErr, st')
      \<and> installCmd (cross st') = Some e
      \<and> (\<forall>v i. LookupEnv ''XDS_SDK_BUF_STDOUT'' = Some v \<and> Atoi v = Some i \<longrightarrow> SizeBufStdout e = i)
      \<and> (LookupEnv ''XDS_SDK_BUF_STDOUT'' = None
           \<or> (\<exists>v. LookupEnv ''XDS_SDK_BUF_STDOUT'' = Some v \<and> Atoi v = None) \<longrightarrow> SizeBufStdout e = 10)
      \<and> (\<forall>v i. LookupEnv ''XDS_SDK_BUF_STDERR'' = Some v \<and> Atoi v = Some i \<longrightarrow> SizeBufStderr e = i)
      \<and> (LookupEnv ''XDS_SDK_BUF_STDERR'' = None
           \<or> (\<exists>v. LookupEnv ''XDS_SDK_BUF_STDERR'' = Some v \<and> Atoi v = None) \<longrightarrow> SizeBufStderr e = 2000)"
  using assms by (auto simp: Install_def Let_def threshold_def)

theorem install_thresholds_from_environment_witness:
  "\<exists>e st'. Install [''XDS_SDK_BUF_STDOUT'' \<mapsto> ''64'', ''XDS_SDK_BUF_STDERR'' \<mapsto> ''plenty'']
               (\<lambda>v. if v = ''64'' then Some 64 else None) None [] False 0 ''sid-1''
               (example_state SdkStatusNotInstalled None) = (None, st')
      \<and> installCmd (cross st') = Some e \<and> SizeBufStdout e = 64 \<and> SizeBufStderr e = 2000"
proof -
  have a: "Status (sdk (cross (example_state SdkStatusNotInstalled None))) \<noteq> SdkStatusInstalled"
    by (simp add: example_defs SdkStatus_defs)
  have b: "Status (sdk (cross (example_state SdkStatusNotInstalled None))) \<noteq> SdkStatusInstalling"
    by (simp add: example_defs SdkStatus_defs)
  from install_thresholds_from_environment[OF a b,
         of "[''XDS_SDK_BUF_STDOUT'' \<mapsto> ''64'', ''XDS_SDK_BUF_STDERR'' \<mapsto> ''plenty'']"
            "\<lambda>v. if v = ''64'' then Some 64 else None" None "[]" False 0 "''sid-1''"]
  show ?thesis by simp
qed

section \<open>Properties of the reconciler\<close>

lemmas reconciler_eval =
  db_dump_def process_envFile_def install_key_def at_index_def example_dirname_def format_date_def
  substring_def update_entry_def update_found_def entry_key_def example_catalog_def new_entry_def
  synth_name_def js_str_def Let_def

lemma entry_key_update_found [simp]:
  "entry_key (update_found dir dt f e) = entry_key e"
  by (simp add: entry_key_def update_found_def)

lemma entry_key_update_entry [simp]:
  "entry_key (update_entry k dir dt f e) = entry_key e"
  by (simp add: update_entry_def)

lemma update_entry_other:
  "p \<notin> written_props \<Longrightarrow> update_entry k dir dt f e p = e p"
  by (simp add: update_entry_def update_found_def written_props_def)

lemma update_entry_no_match:
  "k \<noteq> entry_key e \<Longrightarrow> update_entry k dir dt f e = e"
  by (simp add: update_entry_def)

lemma update_entry_match:
  "k = entry_key e \<Longrightarrow> update_entry k dir dt f e ''status'' = Some ''Installed''
     \<and> update_entry k dir dt f e ''path'' = Some dir
     \<and> update_entry k dir dt f e ''setupFile'' = Some f
     \<and> update_entry k dir dt f e ''data'' = Some dt
     \<and> update_entry k dir dt f e ''date'' = e ''date''
     \<and> update_entry k dir dt f e ''name'' = e ''name''"
  by (simp add: update_entry_def update_found_def)

lemma entry_key_new_entry [simp]: "entry_key (new_entry k dir dt f) = k"
  by (cases k) (simp add: entry_key_def new_entry_def)

lemma new_entry_props:
  "new_entry k dir dt f ''status'' = Some ''Installed''"
  "new_entry k dir dt f ''name'' = Some (synth_name k)"
  "new_entry k dir dt f ''path'' = Some dir"
  by (cases k; simp add: new_entry_def)+

lemma process_cases:
  assumes "process_envFile dn ev dbg f sdks = Some out"
  shows "(\<not> local_install dn ev f \<and> out = sdks)
       \<or> (local_install dn ev f \<and> (\<exists>d. ev (dn f) = Some d \<and>
            out = map (update_entry (install_key f) (dn f) (format_date d) f) sdks @
              (if list_ex (\<lambda>e. install_key f = entry_key e) sdks then []
               else [new_entry (install_key f) (dn f) (format_date d) f])))"
  using assms
  by (auto simp: process_envFile_def local_install_def Let_def
           split: if_splits option.splits)

lemma process_total: "\<not> dbg \<Longrightarrow> process_envFile dn ev dbg f sdks \<noteq> None"
  by (auto simp: process_envFile_def Let_def split: option.splits)

lemma scan_total: "\<not> dbg \<Longrightarrow> scan dn ev dbg fs sdks \<noteq> None"
proof (induction fs arbitrary: sdks)
  case Nil
  then show ?case by simp
next
  case (Cons f fs)
  then show ?case
    using process_total[of dbg dn ev f sdks] by (auto split: option.splits)
qed

text \<open>One step keeps the entries in place: same length or one more, same key and same
  unwritten properties at every old index.\<close>

lemma process_keeps:
  assumes "process_envFile dn ev dbg f sdks = Some out"
  shows "length sdks \<le> length out"
    and "i < length sdks \<Longrightarrow> entry_key (out ! i) = entry_key (sdks ! i)"
    and "i < length sdks \<Longrightarrow> p \<notin> written_props \<Longrightarrow> (out ! i) p = (sdks ! i) p"
  using process_cases[OF assms]
  by (auto simp: nth_append update_entry_other)

lemma scan_keeps:
  assumes "scan dn ev dbg fs sdks = Some out"
  shows "length sdks \<le> length out
       \<and> (\<forall>i < length sdks. entry_key (out ! i) = entry_key (sdks ! i)
            \<and> (\<forall>p. p \<notin> written_props \<longrightarrow> (out ! i) p = (sdks ! i) p))"
  using assms
proof (induction fs arbitrary: sdks)
  case Nil
  then show ?case by simp
next
  case (Cons f fs)
  then obtain mid where m: "process_envFile dn ev dbg f sdks = Some mid"
      and r: "scan dn ev dbg fs mid = Some out"
    by (auto split: option.splits)
  from Cons.IH[OF r] process_keeps[OF m] show ?case
    by (metis (no_types, lifting) le_trans less_le_trans)
qed

lemma process_status_unmatched:
  assumes "process_envFile dn ev dbg f sdks = Some out" and "i < length sdks"
    and "local_install dn ev f \<longrightarrow> install_key f \<noteq> entry_key (sdks ! i)"
  shows "out ! i = sdks ! i"
  using process_cases[OF assms(1)] assms(2,3)
  by (auto simp: nth_append update_entry_no_match)

lemma scan_status_unmatched:
  assumes "scan dn ev dbg fs sdks = Some out" and "i < length sdks"
    and "\<forall>f \<in> set fs. local_install dn ev f \<longrightarrow> install_key f \<noteq> entry_key (sdks ! i)"
  shows "out ! i = sdks ! i"
  using assms
proof (induction fs arbitrary: sdks)
  case Nil
  then show ?case by simp
next
  case (Cons f fs)
  then obtain mid where m: "process_envFile dn ev dbg f sdks = Some mid"
      and r: "scan dn ev dbg fs mid = Some out"
    by (auto split: option.splits)
  have same: "mid ! i = sdks ! i"
    using process_status_unmatched[OF m Cons.prems(2)] Cons.prems(3) by simp
  have len: "i < length mid"
    using process_keeps(1)[OF m] Cons.prems(2) by simp
  have "out ! i = mid ! i"
    using Cons.IH[OF r len] Cons.prems(3) same by simp
  with same show ?case by simp
qed


lemma synthesized_update:
  assumes "synthesized dn ev F e" and "dir \<noteq> []"
  shows "synthesized dn ev F (update_entry k dir dt f e)"
proof (cases "k = entry_key e")
  case True
  with assms show ?thesis
    using update_entry_match[OF True, of dir dt f]
    by (simp add: synthesized_def)
next
  case False
  with assms show ?thesis by (simp add: update_entry_no_match)
qed

lemma synthesized_new:
  assumes "local_install dn ev f" and "f \<in> F"
  shows "synthesized dn ev F (new_entry (install_key f) (dn f) dt f)"
  using assms by (auto simp: synthesized_def new_entry_props local_install_def)

lemma process_synth:
  assumes "process_envFile dn ev dbg f sdks = Some out" and "f \<in> F"
    and "\<forall>j. n \<le> j \<and> j < length sdks \<longrightarrow> synthesized dn ev F (sdks ! j)"
    and "n \<le> j" and "j < length out"
  shows "synthesized dn ev F (out ! j)"
proof -
  from process_cases[OF assms(1)] show ?thesis
  proof
    assume "\<not> local_install dn ev f \<and> out = sdks"
    with assms show ?thesis by simp
  next
    assume a: "local_install dn ev f \<and> (\<exists>d. ev (dn f) = Some d \<and>
            out = map (update_entry (install_key f) (dn f) (format_date d) f) sdks @
              (if list_ex (\<lambda>e. install_key f = entry_key e) sdks then []
               else [new_entry (install_key f) (dn f) (format_date d) f]))"
    then obtain d where li: "local_install dn ev f"
      and out: "out = map (update_entry (install_key f) (dn f) (format_date d) f) sdks @
              (if list_ex (\<lambda>e. install_key f = entry_key e) sdks then []
               else [new_entry (install_key f) (dn f) (format_date d) f])"
      by blast
    from li have dir: "dn f \<noteq> []" by (simp add: local_install_def)
    show ?thesis
    proof (cases "j < length sdks")
      case True
      then have "out ! j = update_entry (install_key f) (dn f) (format_date d) f (sdks ! j)"
        using out by (simp add: nth_append)
      moreover have "synthesized dn ev F (sdks ! j)" using assms(3,4) True by simp
      ultimately show ?thesis using synthesized_update[OF _ dir] by simp
    next
      case False
      with assms(5) out have "out ! j = new_entry (install_key f) (dn f) (format_date d) f"
        by (auto simp: nth_append split: if_splits)
      then show ?thesis using synthesized_new[OF li assms(2)] by simp
    qed
  qed
qed

lemma scan_synth:
  assumes "scan dn ev dbg fs sdks = Some out" and "set fs \<subseteq> F"
    and "\<forall>j. n \<le> j \<and> j < length sdks \<longrightarrow> synthesized dn ev F (sdks ! j)"
  shows "\<forall>j. n \<le> j \<and> j < length out \<longrightarrow> synthesized dn ev F (out ! j)"
  using assms
proof (induction fs arbitrary: sdks)
  case Nil
  then show ?case by simp
next
  case (Cons f fs)
  then obtain mid where m: "process_envFile dn ev dbg f sdks = Some mid"
      and r: "scan dn ev dbg fs mid = Some out"
    by (auto split: option.splits)
  from Cons.prems(2) have fF: "f \<in> F" and rest: "set fs \<subseteq> F" by auto
  have "\<forall>j. n \<le> j \<and> j < length mid \<longrightarrow> synthesized dn ev F (mid ! j)"
    using process_synth[OF m fF Cons.prems(3)] by blast
  from Cons.IH[OF r rest this] show ?case .
qed

lemma process_present:
  assumes "process_envFile dn ev dbg f sdks = Some out" and "local_install dn ev f"
  shows "\<exists>j < length out. entry_key (out ! j) = install_key f"
proof -
  from process_cases[OF assms(1)] assms(2) obtain d where
    out: "out = map (update_entry (install_key f) (dn f) (format_date d) f) sdks @
              (if list_ex (\<lambda>e. install_key f = entry_key e) sdks then []
               else [new_entry (install_key f) (dn f) (format_date d) f])"
    by blast
  show ?thesis
  proof (cases "list_ex (\<lambda>e. install_key f = entry_key e) sdks")
    case True
    then obtain j where "j < length sdks" "install_key f = entry_key (sdks ! j)"
      by (auto simp: list_ex_iff in_set_conv_nth)
    with out True show ?thesis by (intro exI[of _ j]) (simp add: nth_append)
  next
    case False
    with out show ?thesis by (intro exI[of _ "length sdks"]) (simp add: nth_append)
  qed
qed

lemma scan_present:
  assumes "scan dn ev dbg fs sdks = Some out" and "f \<in> set fs" and "local_install dn ev f"
  shows "\<exists>j < length out. entry_key (out ! j) = install_key f"
  using assms
proof (induction fs arbitrary: sdks)
  case Nil
  then show ?case by simp
next
  case (Cons g fs)
  then obtain mid where m: "process_envFile dn ev dbg g sdks = Some mid"
      and r: "scan dn ev dbg fs mid = Some out"
    by (auto split: option.splits)
  show ?case
  proof (cases "f \<in> set fs")
    case True
    from Cons.IH[OF r True Cons.prems(3)] show ?thesis .
  next
    case False
    with Cons.prems(2) have "g = f" by simp
    with process_present[OF m] Cons.prems(3) obtain j where
      j: "j < length mid" "entry_key (mid ! j) = install_key f" by blast
    from scan_keeps[OF r] j have "j < length out" "entry_key (out ! j) = entry_key (mid ! j)"
      by auto
    with j show ?thesis by auto
  qed
qed

text \<open>An appended entry has a key that no earlier entry has, and that stays so.\<close>

lemma process_fresh:
  assumes "process_envFile dn ev dbg f sdks = Some out"
    and "\<forall>j. n \<le> j \<and> j < length sdks \<longrightarrow> (\<forall>i < j. entry_key (sdks ! i) \<noteq> entry_key (sdks ! j))"
    and "n \<le> j" and "j < length out" and "i < j"
  shows "entry_key (out ! i) \<noteq> entry_key (out ! j)"
proof (cases "j < length sdks")
  case True
  with assms(5) have "i < length sdks" by simp
  with True process_keeps(2)[OF assms(1)] have "entry_key (out ! i) = entry_key (sdks ! i)"
    "entry_key (out ! j) = entry_key (sdks ! j)" by auto
  with assms(2,3,5) True show ?thesis by simp
next
  case False
  from process_cases[OF assms(1)] False assms(4) obtain d where
    out: "out = map (update_entry (install_key f) (dn f) (format_date d) f) sdks @
              [new_entry (install_key f) (dn f) (format_date d) f]"
    and nf: "\<not> list_ex (\<lambda>e. install_key f = entry_key e) sdks"
    by (auto split: if_splits)
  from out False assms(4) have j: "j = length sdks" by simp
  with assms(5) have i: "i < length sdks" by simp
  from out j have kj: "entry_key (out ! j) = install_key f" by (simp add: nth_append)
  from out i have ki: "entry_key (out ! i) = entry_key (sdks ! i)" by (simp add: nth_append)
  from nf i have "install_key f \<noteq> entry_key (sdks ! i)"
    by (auto simp: list_ex_iff)
  with ki kj show ?thesis by simp
qed

lemma scan_fresh:
  assumes "scan dn ev dbg fs sdks = Some out"
    and "\<forall>j. n \<le> j \<and> j < length sdks \<longrightarrow> (\<forall>i < j. entry_key (sdks ! i) \<noteq> entry_key (sdks ! j))"
  shows "\<forall>j. n \<le> j \<and> j < length out \<longrightarrow> (\<forall>i < j. entry_key (out ! i) \<noteq> entry_key (out ! j))"
  using assms
proof (induction fs arbitrary: sdks)
  case Nil
  then show ?case by simp
next
  case (Cons f fs)
  then obtain mid where m: "process_envFile dn ev dbg f sdks = Some mid"
      and r: "scan dn ev dbg fs mid = Some out"
    by (auto split: option.splits)
  have "\<forall>j. n \<le> j \<and> j < length mid \<longrightarrow> (\<forall>i < j. entry_key (mid ! i) \<noteq> entry_key (mid ! j))"
    using process_fresh[OF m Cons.prems(2)] by blast
  from Cons.IH[OF r this] show ?case .
qed

text \<open>
  An entry whose key is the key of a processed install is filled in by that step and
  stays so: installed, with a non-empty path and setup file, and the formatted date in
  the property \<open>data\<close>.
\<close>

lemma filled_update:
  assumes "filled e" and "dir \<noteq> []" and "f \<noteq> []"
  shows "filled (update_entry k dir dt f e)"
  using assms by (auto simp: filled_def update_entry_def update_found_def)

lemma process_filled:
  assumes "process_envFile dn ev dbg f sdks = Some out" and "i < length sdks"
    and "filled (sdks ! i) \<or> (local_install dn ev f \<and> install_key f = entry_key (sdks ! i))"
  shows "filled (out ! i)"
proof -
  from process_cases[OF assms(1)] show ?thesis
  proof
    assume "\<not> local_install dn ev f \<and> out = sdks"
    with assms(3) show ?thesis by auto
  next
    assume "local_install dn ev f \<and> (\<exists>d. ev (dn f) = Some d \<and>
            out = map (update_entry (install_key f) (dn f) (format_date d) f) sdks @
              (if list_ex (\<lambda>e. install_key f = entry_key e) sdks then []
               else [new_entry (install_key f) (dn f) (format_date d) f]))"
    then obtain d where li: "local_install dn ev f"
      and o: "out ! i = update_entry (install_key f) (dn f) (format_date d) f (sdks ! i)"
      using assms(2) by (auto simp: nth_append)
    from li have ne: "dn f \<noteq> []" "f \<noteq> []" by (simp_all add: local_install_def)
    from assms(3) show ?thesis
    proof
      assume "filled (sdks ! i)"
      with o ne show ?thesis by (simp add: filled_update)
    next
      assume "local_install dn ev f \<and> install_key f = entry_key (sdks ! i)"
      with o ne show ?thesis
        by (simp add: filled_def update_entry_def update_found_def)
    qed
  qed
qed

lemma scan_filled:
  assumes "scan dn ev dbg fs sdks = Some out" and "i < length sdks"
    and "filled (sdks ! i)
         \<or> (\<exists>f \<in> set fs. local_install dn ev f \<and> install_key f = entry_key (sdks ! i))"
  shows "filled (out ! i)"
  using assms
proof (induction fs arbitrary: sdks)
  case Nil
  then show ?case by simp
next
  case (Cons g fs)
  then obtain mid where m: "process_envFile dn ev dbg g sdks = Some mid"
      and r: "scan dn ev dbg fs mid = Some out"
    by (auto split: option.splits)
  have len: "i < length mid"
    using process_keeps(1)[OF m] Cons.prems(2) by simp
  have key: "entry_key (mid ! i) = entry_key (sdks ! i)"
    using process_keeps(2)[OF m Cons.prems(2)] .
  have "filled (mid ! i)
         \<or> (\<exists>f \<in> set fs. local_install dn ev f \<and> install_key f = entry_key (mid ! i))"
  proof (cases "filled (sdks ! i) \<or> (local_install dn ev g \<and> install_key g = entry_key (sdks ! i))")
    case True
    from process_filled[OF m Cons.prems(2) True] show ?thesis by simp
  next
    case False
    with Cons.prems(3) key show ?thesis by auto
  qed
  from Cons.IH[OF r len this] show ?case .
qed

text \<open>
  C6. For every discovered local install whose profile, version and arch match a catalog
  entry, that entry ends up installed with path, setup file and date filled, the date
  being the formatted timestamp of the version file. Status, path and setup file are
  filled (\<open>scan_filled\<close>); the date is not: the matching branch assigns the formatted
  timestamp to the property \<open>data\<close>, and \<open>date\<close> keeps what the catalog had. Below, a
  catalog entry with an empty date and a matching install whose version file holds a
  timestamp.
\<close>

theorem matched_entry_date_not_filled:
  "map_option (map (\<lambda>e. (e ''status'', e ''path'', e ''setupFile'', e ''date'', e ''data'')))
     (db_dump example_dirname (\<lambda>dir. Some (''202401151230'' @ [CHR 0x0A])) False example_catalog
        [''/xdt/sdk/agl/7.0.0/aarch64/environment-setup-aarch64-agl-linux''])
   = Some [(Some ''Installed'', Some ''/xdt/sdk/agl/7.0.0/aarch64'',
            Some ''/xdt/sdk/agl/7.0.0/aarch64/environment-setup-aarch64-agl-linux'',
            Some [], Some ''2024-01-15 12:30'')]"
  by (simp add: reconciler_eval)

text \<open>
  C7. In the merged output every catalog entry without a matching local install has
  status "Not Installed"; every local install without a matching catalog entry appears as
  a synthesized entry named profile-arch-version, installed, with a non-empty path; the
  catalog entries keep their order (entry \<open>i\<close> of the output is entry \<open>i\<close> of the catalog,
  with only the written properties changed), and everything after them is synthesized
  and has a key that no entry before it has.
  Without \<open>DEBUG\<close> the scan always produces an output.
\<close>

theorem reconciler_merge:
  "(\<not> DEBUG \<longrightarrow> db_dump dn ev DEBUG catalog fs \<noteq> None)
   \<and> (\<forall>out. db_dump dn ev DEBUG catalog fs = Some out \<longrightarrow>
        length catalog \<le> length out
      \<and> (\<forall>i < length catalog. entry_key (out ! i) = entry_key (catalog ! i)
            \<and> (\<forall>p. p \<notin> written_props \<longrightarrow> (out ! i) p = (catalog ! i) p))
      \<and> (\<forall>i < length catalog.
            (\<forall>f \<in> set fs. local_install dn ev f \<longrightarrow> install_key f \<noteq> entry_key (catalog ! i))
            \<longrightarrow> (out ! i) ''status'' = Some ''Not Installed'')
      \<and> (\<forall>f \<in> set fs. local_install dn ev f \<and> (\<forall>c \<in> set catalog. entry_key c \<noteq> install_key f)
            \<longrightarrow> (\<exists>j. length catalog \<le> j \<and> j < length out
                   \<and> entry_key (out ! j) = install_key f
                   \<and> (out ! j) ''name'' = Some (synth_name (install_key f))
                   \<and> (out ! j) ''status'' = Some ''Installed''
                   \<and> (\<exists>p. (out ! j) ''path'' = Some p \<and> p \<noteq> [])))
      \<and> (\<forall>j. length catalog \<le> j \<and> j < length out \<longrightarrow> synthesized dn ev (set fs) (out ! j))
      \<and> (\<forall>j. length catalog \<le> j \<and> j < length out \<longrightarrow> (\<forall>i < j. entry_key (out ! i) \<noteq> entry_key (out ! j))))"
proof -
  have total: "\<not> DEBUG \<longrightarrow> db_dump dn ev DEBUG catalog fs \<noteq> None"
    by (simp add: db_dump_def scan_total)
  have merged: "\<forall>out. db_dump dn ev DEBUG catalog fs = Some out \<longrightarrow>
        length catalog \<le> length out
      \<and> (\<forall>i < length catalog. entry_key (out ! i) = entry_key (catalog ! i)
            \<and> (\<forall>p. p \<notin> written_props \<longrightarrow> (out ! i) p = (catalog ! i) p))
      \<and> (\<forall>i < length catalog.
            (\<forall>f \<in> set fs. local_install dn ev f \<longrightarrow> install_key f \<noteq> entry_key (catalog ! i))
            \<longrightarrow> (out ! i) ''status'' = Some ''Not Installed'')
      \<and> (\<forall>f \<in> set fs. local_install dn ev f \<and> (\<forall>c \<in> set catalog. entry_key c \<noteq> install_key f)
            \<longrightarrow> (\<exists>j. length catalog \<le> j \<and> j < length out
                   \<and> entry_key (out ! j) = install_key f
                   \<and> (out ! j) ''name'' = Some (synth_name (install_key f))
                   \<and> (out ! j) ''status'' = Some ''Installed''
                   \<and> (\<exists>p. (out ! j) ''path'' = Some p \<and> p \<noteq> [])))
      \<and> (\<forall>j. length catalog \<le> j \<and> j < length out \<longrightarrow> synthesized dn ev (set fs) (out ! j))
      \<and> (\<forall>j. length catalog \<le> j \<and> j < length out \<longrightarrow> (\<forall>i < j. entry_key (out ! i) \<noteq> entry_key (out ! j)))"
  proof (rule allI, rule impI)
    fix out
    assume o: "db_dump dn ev DEBUG catalog fs = Some out"
    let ?init = "map (\<lambda>e. e(''status'' \<mapsto> ''Not Installed'')) catalog"
    from o have sc: "scan dn ev DEBUG fs ?init = Some out" by (simp add: db_dump_def)
    have keys0: "\<And>i. i < length catalog \<Longrightarrow> entry_key (?init ! i) = entry_key (catalog ! i)"
      by (simp add: entry_key_def)
    note keep = scan_keeps[OF sc]
    have len: "length catalog \<le> length out" using keep by simp
    have order: "\<forall>i < length catalog. entry_key (out ! i) = entry_key (catalog ! i)
            \<and> (\<forall>p. p \<notin> written_props \<longrightarrow> (out ! i) p = (catalog ! i) p)"
      using keep keys0 by (auto simp: written_props_def)
    have unmatched: "\<forall>i < length catalog.
            (\<forall>f \<in> set fs. local_install dn ev f \<longrightarrow> install_key f \<noteq> entry_key (catalog ! i))
            \<longrightarrow> (out ! i) ''status'' = Some ''Not Installed''"
    proof (intro allI impI)
      fix i
      assume i: "i < length catalog"
        and nm: "\<forall>f \<in> set fs. local_install dn ev f \<longrightarrow> install_key f \<noteq> entry_key (catalog ! i)"
      have "out ! i = ?init ! i"
        using scan_status_unmatched[OF sc, of i] i nm keys0 by simp
      with i show "(out ! i) ''status'' = Some ''Not Installed''" by simp
    qed
    have synth: "\<forall>j. length catalog \<le> j \<and> j < length out \<longrightarrow> synthesized dn ev (set fs) (out ! j)"
    proof -
      have vac: "\<forall>j. length catalog \<le> j \<and> j < length ?init \<longrightarrow> synthesized dn ev (set fs) (?init ! j)"
        by auto
      from scan_synth[OF sc subset_refl vac] show ?thesis .
    qed
    have fresh: "\<forall>j. length catalog \<le> j \<and> j < length out \<longrightarrow> (\<forall>i < j. entry_key (out ! i) \<noteq> entry_key (out ! j))"
    proof -
      have vac: "\<forall>j. length catalog \<le> j \<and> j < length ?init \<longrightarrow>
                   (\<forall>i < j. entry_key (?init ! i) \<noteq> entry_key (?init ! j))"
        by auto
      from scan_fresh[OF sc vac] show ?thesis .
    qed
    have local_only: "\<forall>f \<in> set fs. local_install dn ev f \<and> (\<forall>c \<in> set catalog. entry_key c \<noteq> install_key f)
            \<longrightarrow> (\<exists>j. length catalog \<le> j \<and> j < length out
                   \<and> entry_key (out ! j) = install_key f
                   \<and> (out ! j) ''name'' = Some (synth_name (install_key f))
                   \<and> (out ! j) ''status'' = Some ''Installed''
                   \<and> (\<exists>p. (out ! j) ''path'' = Some p \<and> p \<noteq> []))"
    proof (intro ballI impI)
      fix f
      assume f: "f \<in> set fs"
        and h: "local_install dn ev f \<and> (\<forall>c \<in> set catalog. entry_key c \<noteq> install_key f)"
      from scan_present[OF sc f] h obtain j where
        j: "j < length out" "entry_key (out ! j) = install_key f" by blast
      have "\<not> j < length catalog"
      proof
        assume lt: "j < length catalog"
        with order have "entry_key (out ! j) = entry_key (catalog ! j)" by simp
        moreover from lt have "catalog ! j \<in> set catalog" by simp
        ultimately show False using h j(2) by metis
      qed
      then have ge: "length catalog \<le> j" by simp
      with synth j(1) have "synthesized dn ev (set fs) (out ! j)" by simp
      with j ge show "\<exists>j. length catalog \<le> j \<and> j < length out
                   \<and> entry_key (out ! j) = install_key f
                   \<and> (out ! j) ''name'' = Some (synth_name (install_key f))
                   \<and> (out ! j) ''status'' = Some ''Installed''
                   \<and> (\<exists>p. (out ! j) ''path'' = Some p \<and> p \<noteq> [])"
        by (auto simp: synthesized_def)
    qed
    show "length catalog \<le> length out
      \<and> (\<forall>i < length catalog. entry_key (out ! i) = entry_key (catalog ! i)
            \<and> (\<forall>p. p \<notin> written_props \<longrightarrow> (out ! i) p = (catalog ! i) p))
      \<and> (\<forall>i < length catalog.
            (\<forall>f \<in> set fs. local_install dn ev f \<longrightarrow> install_key f \<noteq> entry_key (catalog ! i))
            \<longrightarrow> (out ! i) ''status'' = Some ''Not Installed'')
      \<and> (\<forall>f \<in> set fs. local_install dn ev f \<and> (\<forall>c \<in> set catalog. entry_key c \<noteq> install_key f)
            \<longrightarrow> (\<exists>j. length catalog \<le> j \<and> j < length out
                   \<and> entry_key (out ! j) = install_key f
                   \<and> (out ! j) ''name'' = Some (synth_name (install_key f))
                   \<and> (out ! j) ''status'' = Some ''Installed''
                   \<and> (\<exists>p. (out ! j) ''path'' = Some p \<and> p \<noteq> [])))
      \<and> (\<forall>j. length catalog \<le> j \<and> j < length out \<longrightarrow> synthesized dn ev (set fs) (out ! j))
      \<and> (\<forall>j. length catalog \<le> j \<and> j < length out \<longrightarrow> (\<forall>i < j. entry_key (out ! i) \<noteq> entry_key (out ! j)))"
      by (rule conjI[OF len conjI[OF order conjI[OF unmatched conjI[OF local_only conjI[OF synth fresh]]]]])
  qed
  show ?thesis by (rule conjI[OF total merged])
qed


theorem reconciler_merge_witness:
  "\<exists>out. db_dump example_dirname (\<lambda>dir. Some (''202401151230'' @ [CHR 0x0A])) False example_catalog
             [''/xdt/sdk/agl/8.0.0/aarch64/environment-setup-aarch64-agl-linux'', []] = Some out
     \<and> (out ! 0) ''name'' = Some ''agl-aarch64-7.0.0''
     \<and> (out ! 0) ''status'' = Some ''Not Installed''
     \<and> (\<exists>j. 1 \<le> j \<and> j < length out
            \<and> (out ! j) ''name'' = Some ''agl-aarch64-8.0.0''
            \<and> (out ! j) ''status'' = Some ''Installed''
            \<and> (\<exists>p. (out ! j) ''path'' = Some p \<and> p \<noteq> []))"
proof -
  let ?ev = "\<lambda>dir :: string. Some (''202401151230'' @ [CHR 0x0A])"
  let ?f = "''/xdt/sdk/agl/8.0.0/aarch64/environment-setup-aarch64-agl-linux''"
  let ?fs = "[?f, []]"
  note T = reconciler_merge[of False example_dirname ?ev example_catalog ?fs]
  from T have "db_dump example_dirname ?ev False example_catalog ?fs \<noteq> None"
    by (rule conjunct1[THEN mp]) simp
  then obtain out where o: "db_dump example_dirname ?ev False example_catalog ?fs = Some out"
    by auto
  note M = T[THEN conjunct2, THEN spec, THEN mp, OF o]
  note P = M[THEN conjunct2, THEN conjunct1]
    M[THEN conjunct2, THEN conjunct2, THEN conjunct1]
    M[THEN conjunct2, THEN conjunct2, THEN conjunct2, THEN conjunct1]
  have key: "install_key ?f = (Some ''agl'', Some ''8.0.0'', Some ''aarch64'')"
    by (simp add: install_key_def at_index_def)
  have li: "local_install example_dirname ?ev ?f"
    by (simp add: local_install_def key example_dirname_def)
  have nomatch: "\<forall>c \<in> set example_catalog. entry_key c \<noteq> install_key ?f"
    by (simp add: key example_catalog_def entry_key_def)
  have len: "length example_catalog = 1" by (simp add: example_catalog_def)
  have un0: "\<forall>f \<in> set ?fs. local_install example_dirname ?ev f
               \<longrightarrow> install_key f \<noteq> entry_key (example_catalog ! 0)"
    by (simp add: key local_install_def example_catalog_def entry_key_def)
  have nm: "''name'' \<notin> written_props" by (simp add: written_props_def)
  from P(1) len nm have a: "(out ! 0) ''name'' = Some ''agl-aarch64-7.0.0''"
    by (simp add: example_catalog_def)
  from P(2) len un0 have b: "(out ! 0) ''status'' = Some ''Not Installed''"
    by simp
  from P(3) li nomatch obtain j where j: "length example_catalog \<le> j" "j < length out"
      "(out ! j) ''name'' = Some (synth_name (install_key ?f))"
      "(out ! j) ''status'' = Some ''Installed''" "\<exists>p. (out ! j) ''path'' = Some p \<and> p \<noteq> []"
    by auto
  have sn: "synth_name (install_key ?f) = ''agl-aarch64-8.0.0''"
    by (simp add: key synth_name_def js_str_def)
  from o a b j sn len show ?thesis by auto
qed


end
